theory Spec2Isabelle
  imports Complex_Main
begin

section \<open>JavaScript values used by the layout engine\<close>

text \<open>
  The plugin computes with JavaScript numbers and, where a field has not been assigned or an
  array is read outside its elements, with \<open>undefined\<close>.  A number is a finite value, one
  of the two infinities, or NaN.  Finite values are modelled as exact rationals: the
  rounding of IEEE doubles and the sign of zero are abstracted away.  On integer pixel
  measurements of ordinary size the doubles the engine computes are the exact sums and
  products, and the floor of the quotient is the floor of the exact quotient.
\<close>

datatype jsnum = Fin rat | PInf | NInf | NaN

datatype jsval = Undefined | Number jsnum

text \<open>\<open>ToNumber\<close> of the language: \<open>undefined\<close> becomes NaN.\<close>

fun ToNumber :: "jsval \<Rightarrow> jsnum" where
  "ToNumber Undefined = NaN"
| "ToNumber (Number n) = n"

text \<open>The operator \<open>+\<close> on two numbers.\<close>

fun js_add :: "jsnum \<Rightarrow> jsnum \<Rightarrow> jsnum" where
  "js_add (Fin a) (Fin b) = Fin (a + b)"
| "js_add (Fin a) PInf = PInf"
| "js_add (Fin a) NInf = NInf"
| "js_add PInf (Fin b) = PInf"
| "js_add PInf PInf = PInf"
| "js_add PInf NInf = NaN"
| "js_add NInf (Fin b) = NInf"
| "js_add NInf NInf = NInf"
| "js_add NInf PInf = NaN"
| "js_add NaN b = NaN"
| "js_add a NaN = NaN"

text \<open>The operator \<open>*\<close> on two numbers.\<close>

fun js_mul :: "jsnum \<Rightarrow> jsnum \<Rightarrow> jsnum" where
  "js_mul (Fin a) (Fin b) = Fin (a * b)"
| "js_mul (Fin a) PInf = (if a = 0 then NaN else if 0 < a then PInf else NInf)"
| "js_mul (Fin a) NInf = (if a = 0 then NaN else if 0 < a then NInf else PInf)"
| "js_mul PInf (Fin b) = (if b = 0 then NaN else if 0 < b then PInf else NInf)"
| "js_mul NInf (Fin b) = (if b = 0 then NaN else if 0 < b then NInf else PInf)"
| "js_mul PInf PInf = PInf"
| "js_mul PInf NInf = NInf"
| "js_mul NInf PInf = NInf"
| "js_mul NInf NInf = PInf"
| "js_mul NaN b = NaN"
| "js_mul a NaN = NaN"

text \<open>
  The operator \<open>/\<close> on two numbers.  A finite value divided by zero is an infinity of the
  sign of the dividend, and \<open>0 / 0\<close> is NaN; nothing is raised.
\<close>

fun js_div :: "jsnum \<Rightarrow> jsnum \<Rightarrow> jsnum" where
  "js_div (Fin a) (Fin b) =
     (if b = 0 then (if a = 0 then NaN else if 0 < a then PInf else NInf) else Fin (a / b))"
| "js_div (Fin a) PInf = Fin 0"
| "js_div (Fin a) NInf = Fin 0"
| "js_div PInf (Fin b) = (if 0 \<le> b then PInf else NInf)"
| "js_div NInf (Fin b) = (if 0 \<le> b then NInf else PInf)"
| "js_div PInf PInf = NaN"
| "js_div PInf NInf = NaN"
| "js_div NInf PInf = NaN"
| "js_div NInf NInf = NaN"
| "js_div NaN b = NaN"
| "js_div a NaN = NaN"

text \<open>\<open>Math.floor\<close>.\<close>

fun Math_floor :: "jsnum \<Rightarrow> jsnum" where
  "Math_floor (Fin a) = Fin (of_int \<lfloor>a\<rfloor>)"
| "Math_floor PInf = PInf"
| "Math_floor NInf = NInf"
| "Math_floor NaN = NaN"

text \<open>The operator \<open><\<close> on two numbers: false as soon as one of them is NaN.\<close>

fun js_lt :: "jsnum \<Rightarrow> jsnum \<Rightarrow> bool" where
  "js_lt (Fin a) (Fin b) = (a < b)"
| "js_lt (Fin a) PInf = True"
| "js_lt NInf (Fin b) = True"
| "js_lt NInf PInf = True"
| "js_lt a b = False"

text \<open>The operator \<open><=\<close> on two numbers.\<close>

fun js_le :: "jsnum \<Rightarrow> jsnum \<Rightarrow> bool" where
  "js_le (Fin a) (Fin b) = (a \<le> b)"
| "js_le (Fin a) PInf = True"
| "js_le NInf (Fin b) = True"
| "js_le NInf PInf = True"
| "js_le PInf PInf = True"
| "js_le NInf NInf = True"
| "js_le a b = False"

text \<open>
  Strict equality \<open>===\<close>: NaN is not equal to anything, itself included;
  \<open>undefined\<close> is equal to \<open>undefined\<close> only.
\<close>

definition num_strict_eq :: "jsnum \<Rightarrow> jsnum \<Rightarrow> bool" where
  "num_strict_eq a b = (a \<noteq> NaN \<and> a = b)"

fun strict_eq :: "jsval \<Rightarrow> jsval \<Rightarrow> bool" where
  "strict_eq Undefined Undefined = True"
| "strict_eq (Number a) (Number b) = num_strict_eq a b"
| "strict_eq a b = False"

text \<open>
  \<open>Math.min\<close> applied to a list of arguments: \<open>+Infinity\<close> for no argument, NaN as
  soon as one argument is NaN, the smallest argument otherwise.
\<close>

fun min2 :: "jsnum \<Rightarrow> jsnum \<Rightarrow> jsnum" where
  "min2 NaN b = NaN"
| "min2 a NaN = NaN"
| "min2 a b = (if js_le a b then a else b)"

primrec Math_min :: "jsnum list \<Rightarrow> jsnum" where
  "Math_min [] = PInf"
| "Math_min (v # vs) = min2 v (Math_min vs)"

section \<open>Arrays\<close>

text \<open>
  An array has its elements at the indices \<open>0 .. length - 1\<close> (a hole reads as
  \<open>undefined\<close>) and, like every object, may carry further properties: \<open>props\<close>
  holds those at negative integer keys, \<open>undefined\<close> where there is none.  Reading
  outside the elements yields \<open>undefined\<close>; writing at an index beyond the end extends
  the array; writing at a negative key creates a property and leaves the elements and
  the length alone.
\<close>

record jsarray =
  elems :: "jsval list"
  props :: "int \<Rightarrow> jsval"

definition empty_array :: jsarray where
  "empty_array = \<lparr>elems = [], props = (\<lambda>_. Undefined)\<rparr>"

definition arr_get :: "jsarray \<Rightarrow> int \<Rightarrow> jsval" where
  "arr_get a i =
     (if 0 \<le> i then (if nat i < length (elems a) then elems a ! nat i else Undefined)
      else props a i)"

definition arr_set :: "jsarray \<Rightarrow> int \<Rightarrow> jsval \<Rightarrow> jsarray" where
  "arr_set a i v =
     (if 0 \<le> i then
        (if nat i < length (elems a) then a\<lparr>elems := (elems a)[nat i := v]\<rparr>
         else a\<lparr>elems := elems a @ replicate (nat i - length (elems a)) Undefined @ [v]\<rparr>)
      else a\<lparr>props := (props a)(i := v)\<rparr>)"

text \<open>
  \<open>Array.prototype.indexOf\<close>: the first index whose element is strictly equal to the
  value searched for, \<open>-1\<close> when there is none.
\<close>

fun indexOf_from :: "int \<Rightarrow> jsval list \<Rightarrow> jsval \<Rightarrow> int" where
  "indexOf_from k [] v = -1"
| "indexOf_from k (e # es) v = (if strict_eq e v then k else indexOf_from (k + 1) es v)"

definition indexOf :: "jsarray \<Rightarrow> jsval \<Rightarrow> int" where
  "indexOf a v = indexOf_from 0 (elems a) v"

section \<open>The plugin instance\<close>

text \<open>
  The geometry of the page is outside the plugin: an element answers \<open>width()\<close> and
  \<open>height()\<close>, the container answers \<open>width()\<close> and \<open>children()\<close>.  What an
  element answers is taken not to change while the plugin runs; the width of the
  container is measured anew at every event and handed to \<open>_updateContainerWidth\<close>.
\<close>

record element =
  dom_width :: jsnum
  dom_height :: jsnum

record dom =
  container_width :: jsnum
  kids :: "element list"

text \<open>An entry of \<open>this.children\<close>, as \<open>_addNewChild\<close> builds it.\<close>

record child =
  child_el :: element
  child_index :: nat
  child_height :: jsnum
  child_x :: jsnum
  child_y :: jsval

text \<open>
  What the plugin does to the page and, for reference in the statements below, which
  passes it ran: \<open>Css n x y\<close> is the transform \<open>translate3d(x px, y px, 0)\<close> that
  \<open>_positionChild\<close> writes on the element of index \<open>n\<close>; \<open>PackCall\<close> and
  \<open>RenderCall\<close> mark an entry into \<open>_pack\<close> and \<open>render\<close>.
\<close>

datatype event = PackCall | RenderCall | Css nat jsnum jsval

record plugin =
  children :: "child list"
  colHeights :: jsarray
  gutterX :: jsnum
  gutterY :: jsnum
  colWidth :: jsval
  containerWidth :: jsval
  colCount :: jsval
  trace :: "event list"

subsection \<open>Set-up\<close>

text \<open>
  \<open>_setColumnWidth\<close>: the width of the first child of the container; the getter of an
  empty selection answers \<open>undefined\<close>.
\<close>

definition setColumnWidth :: "dom \<Rightarrow> plugin \<Rightarrow> plugin" where
  "setColumnWidth d s =
     s\<lparr>colWidth := (case kids d of [] \<Rightarrow> Undefined | e # _ \<Rightarrow> Number (dom_width e))\<rparr>"

text \<open>
  \<open>_setupGlobals\<close>, on a fresh instance whose other fields are still \<open>undefined\<close>.
  The random identifier it draws first is never read again and is left out.
\<close>

definition setupGlobals :: "jsnum \<times> jsnum \<Rightarrow> dom \<Rightarrow> plugin" where
  "setupGlobals gutter d =
     setColumnWidth d
       \<lparr>children = [], colHeights = empty_array,
        gutterX = fst gutter, gutterY = snd gutter,
        colWidth = Undefined, containerWidth = Undefined, colCount = Undefined,
        trace = []\<rparr>"

text \<open>
  \<open>_addNewChild\<close> and \<open>_parseChildren\<close>: the children of the container are
  registered in their order, each with the height measured on it at that moment and the
  coordinates \<open>(0, 0)\<close>.  The call \<open>.bind(this)\<close> on what \<open>each\<close> returns touches
  nothing the layout reads.
\<close>

definition addNewChild :: "element \<Rightarrow> nat \<Rightarrow> plugin \<Rightarrow> plugin" where
  "addNewChild el n s =
     s\<lparr>children := children s @
        [\<lparr>child_el = el, child_index = n, child_height = dom_height el,
          child_x = Fin 0, child_y = Number (Fin 0)\<rparr>]\<rparr>"

fun each_addNewChild :: "nat \<Rightarrow> element list \<Rightarrow> plugin \<Rightarrow> plugin" where
  "each_addNewChild n [] s = s"
| "each_addNewChild n (el # els) s = each_addNewChild (n + 1) els (addNewChild el n s)"

definition parseChildren :: "dom \<Rightarrow> plugin \<Rightarrow> plugin" where
  "parseChildren d s = each_addNewChild 0 (kids d) (s\<lparr>children := []\<rparr>)"

subsection \<open>Column count and column heights\<close>

text \<open>
  \<open>_getColumnCount\<close>: one gutter is added to the width of the container, the sum is
  divided by the width of a column plus one gutter, and the quotient is floored.
\<close>

definition getColumnCount :: "plugin \<Rightarrow> jsnum" where
  "getColumnCount s =
     (let available_width = js_add (ToNumber (containerWidth s)) (gutterX s);
          adjusted_col_width = js_add (ToNumber (colWidth s)) (gutterX s)
      in Math_floor (js_div available_width adjusted_col_width))"

text \<open>
  The loop of \<open>_resetColHeights\<close>: \<open>for (let i = 0; i < columns; i++) colHeights[i] = 0\<close>.
  It has no end when \<open>columns\<close> is \<open>+Infinity\<close> (an engine runs it until it gives
  up); not returning is the value \<open>None\<close>.
\<close>

partial_function (option) zero_loop :: "jsnum \<Rightarrow> nat \<Rightarrow> jsarray \<Rightarrow> jsarray option" where
  "zero_loop columns i a =
     (if js_lt (Fin (of_nat i)) columns
      then zero_loop columns (i + 1) (arr_set a (int i) (Number (Fin 0)))
      else Some a)"

text \<open>
  \<open>_resetColHeights\<close> recomputes the column count, fills a new array and stores it;
  the column count it stores is the length of that array.
\<close>

definition resetColHeights :: "plugin \<Rightarrow> plugin option" where
  "resetColHeights s =
     (case zero_loop (getColumnCount s) 0 empty_array of
        None \<Rightarrow> None
      | Some a \<Rightarrow> Some (s\<lparr>colHeights := a, colCount := Number (Fin (of_nat (length (elems a))))\<rparr>))"

subsection \<open>Packing and rendering\<close>

text \<open>\<open>_fitMinIndex\<close>: \<open>array.indexOf(Math.min.apply(null, array))\<close>.\<close>

definition fitMinIndex :: "jsarray \<Rightarrow> int" where
  "fitMinIndex a = indexOf a (Number (Math_min (map ToNumber (elems a))))"

text \<open>
  \<open>_packChild\<close> writes the coordinates of one child and raises the height of the chosen
  column; it returns the child and the instance as it leaves them.  The column is
  whatever \<open>_fitMinIndex\<close> returns, \<open>-1\<close> included; the width is the one the element
  answers.
\<close>

definition packChild :: "child \<Rightarrow> plugin \<Rightarrow> child \<times> plugin" where
  "packChild c s =
     (let column = fitMinIndex (colHeights s);
          padding_offset = js_mul (Fin (of_int column)) (gutterX s)
      in (c\<lparr>child_y := arr_get (colHeights s) column,
            child_x := js_add (js_mul (Fin (of_int column)) (dom_width (child_el c))) padding_offset\<rparr>,
          s\<lparr>colHeights :=
              arr_set (colHeights s) column
                (Number (js_add (ToNumber (arr_get (colHeights s) column))
                                (js_add (child_height c) (gutterY s))))\<rparr>))"

text \<open>\<open>this.children.forEach(this._packChild.bind(this))\<close>, in the order of the array.\<close>

fun forEach_packChild :: "child list \<Rightarrow> plugin \<Rightarrow> child list \<times> plugin" where
  "forEach_packChild [] s = ([], s)"
| "forEach_packChild (c # cs) s =
     (let (c', s') = packChild c s;
          (cs', s'') = forEach_packChild cs s'
      in (c' # cs', s''))"

text \<open>
  \<open>_pack\<close>, \<open>render\<close> and \<open>update\<close>.  \<open>_positionChild\<close> hands the coordinates
  of a child to the page as they are.
\<close>

definition pack :: "plugin \<Rightarrow> plugin" where
  "pack s =
     (let (cs, s') = forEach_packChild (children s) (s\<lparr>trace := trace s @ [PackCall]\<rparr>)
      in s'\<lparr>children := cs\<rparr>)"

definition positionChild :: "child \<Rightarrow> event" where
  "positionChild c = Css (child_index c) (child_x c) (child_y c)"

definition render :: "plugin \<Rightarrow> plugin" where
  "render s = s\<lparr>trace := trace s @ [RenderCall] @ map positionChild (children s)\<rparr>"

definition update :: "plugin \<Rightarrow> plugin" where
  "update s = render (pack s)"

subsection \<open>Reacting to the width of the container\<close>

text \<open>
  \<open>_columnCountChanged\<close> and \<open>_containerWidthChanged\<close>: the column heights are reset
  and a pass is run only when the recomputed column count is not strictly equal to the
  stored one.
\<close>

definition columnCountChanged :: "plugin \<Rightarrow> plugin option" where
  "columnCountChanged s = map_option update (resetColHeights s)"

definition containerWidthChanged :: "plugin \<Rightarrow> plugin option" where
  "containerWidthChanged s =
     (let column_count = getColumnCount s
      in if \<not> strict_eq (Number column_count) (colCount s)
         then columnCountChanged (s\<lparr>colCount := Number column_count\<rparr>)
         else Some s)"

text \<open>
  \<open>_updateContainerWidth\<close>, run at the end of \<open>init\<close> and on every resize event of the
  window; \<open>w\<close> is what \<open>this.$element.width()\<close> answers at that moment.
\<close>

definition updateContainerWidth :: "jsnum \<Rightarrow> plugin \<Rightarrow> plugin option" where
  "updateContainerWidth w s =
     (if \<not> strict_eq (Number w) (containerWidth s)
      then containerWidthChanged (s\<lparr>containerWidth := Number w\<rparr>)
      else Some s)"

text \<open>
  \<open>init\<close>.  The subscription to the resize event (\<open>_setupResizeListener\<close>) only arranges
  for \<open>updateContainerWidth\<close> to be run later and changes nothing of the instance.
\<close>

definition init :: "jsnum \<times> jsnum \<Rightarrow> dom \<Rightarrow> plugin option" where
  "init gutter d =
     updateContainerWidth (container_width d) (parseChildren d (setupGlobals gutter d))"

section \<open>Notions used in the statements\<close>

text \<open>A value that is a number other than NaN; a finite number.\<close>

fun numeric :: "jsval \<Rightarrow> bool" where
  "numeric Undefined = False"
| "numeric (Number n) = (n \<noteq> NaN)"



text \<open>The array literal \<open>[h0, h1, ...]\<close> of finite numbers, and the array of \<open>n\<close> zeros.\<close>

definition array_of :: "rat list \<Rightarrow> jsarray" where
  "array_of hs = \<lparr>elems = map (\<lambda>h. Number (Fin h)) hs, props = (\<lambda>_. Undefined)\<rparr>"

definition zeroed :: "nat \<Rightarrow> jsarray" where
  "zeroed n = array_of (replicate n 0)"

text \<open>The coordinates the children hold, in the order of \<open>this.children\<close>.\<close>

definition coords :: "plugin \<Rightarrow> (jsnum \<times> jsval) list" where
  "coords s = map (\<lambda>c. (child_x c, child_y c)) (children s)"

text \<open>An element of width \<open>w\<close> and height \<open>h\<close>.\<close>

definition item :: "rat \<Rightarrow> rat \<Rightarrow> element" where
  "item w h = \<lparr>dom_width = Fin w, dom_height = Fin h\<rparr>"


text \<open>
  The scenario of five items of width 100 in a container of width 340, and the instance
  that \<open>init\<close> leaves with the gutters \<open>(20, 10)\<close>.
\<close>

definition page :: dom where
  "page = \<lparr>container_width = Fin 340,
            kids = [item 100 50, item 100 80, item 100 30, item 100 60, item 100 40]\<rparr>"

definition placed :: "nat \<Rightarrow> rat \<Rightarrow> rat \<Rightarrow> rat \<Rightarrow> child" where
  "placed n h x y =
     \<lparr>child_el = item 100 h, child_index = n, child_height = Fin h,
      child_x = Fin x, child_y = Number (Fin y)\<rparr>"

definition page_laid_out :: plugin where
  "page_laid_out =
     \<lparr>children = [placed 0 50 0 0, placed 1 80 120 0, placed 2 30 240 0,
                  placed 3 60 240 40, placed 4 40 0 60],
      colHeights = array_of [110, 90, 110],
      gutterX = Fin 20, gutterY = Fin 10,
      colWidth = Number (Fin 100), containerWidth = Number (Fin 340),
      colCount = Number (Fin 3),
      trace = [PackCall, RenderCall,
               Css 0 (Fin 0) (Number (Fin 0)), Css 1 (Fin 120) (Number (Fin 0)),
               Css 2 (Fin 240) (Number (Fin 0)), Css 3 (Fin 240) (Number (Fin 40)),
               Css 4 (Fin 0) (Number (Fin 60))]\<rparr>"

text \<open>
  Column \<open>i\<close> attains the minimum of the array: it is one of its elements and
  its height is at most the height of every element, in the order of the language
  (in which NaN compares with nothing).
\<close>

definition attains_min :: "jsarray \<Rightarrow> nat \<Rightarrow> bool" where
  "attains_min a i =
     (i < length (elems a)
      \<and> list_all (\<lambda>e. js_le (ToNumber (elems a ! i)) (ToNumber e)) (elems a))"

text \<open>
  What \<open>_packChild\<close> reads of a child: the width of its element and its cached
  height.
\<close>

definition measurements :: "child \<Rightarrow> jsnum \<times> jsnum" where
  "measurements c = (dom_width (child_el c), child_height c)"


text \<open>
  The scenario before \<open>_updateContainerWidth\<close> has run: the children are
  registered, all at \<open>(0, 0)\<close>.
\<close>

definition fresh_page :: plugin where
  "fresh_page = parseChildren page (setupGlobals (Fin 20, Fin 10) page)"





section \<open>Auxiliary facts\<close>

subsection \<open>The loop of \<open>_resetColHeights\<close>\<close>

text \<open>
  The loop runs \<open>\<lceil>columns\<rceil>\<close> times for a finite bound, not at all for NaN and
  \<open>-Infinity\<close>, and for ever for \<open>+Infinity\<close>.
\<close>

lemma lt_iff: "(of_nat i < (q::rat)) = (i < nat \<lceil>q\<rceil>)"
proof -
  have "(of_nat i < q) = (of_int (int i) < q)" by simp
  also have "\<dots> = (int i < \<lceil>q\<rceil>)" by (simp only: less_ceiling_iff)
  also have "\<dots> = (i < nat \<lceil>q\<rceil>)" by linarith
  finally show ?thesis .
qed

lemma zero_loop_Fin:
  "length (elems a) = i \<Longrightarrow>
   zero_loop (Fin q) i a = Some (a\<lparr>elems := elems a @ replicate (nat \<lceil>q\<rceil> - i) (Number (Fin 0))\<rparr>)"
proof (induction "nat \<lceil>q\<rceil> - i" arbitrary: i a)
  case 0
  then have "\<not> of_nat i < q" by (simp add: lt_iff)
  then show ?case using 0 by (subst zero_loop.simps) simp
next
  case (Suc n)
  then have lt: "of_nat i < q" by (simp add: lt_iff)
  have n: "n = nat \<lceil>q\<rceil> - (i + 1)" using Suc.hyps(2) by simp
  have len: "length (elems (arr_set a (int i) (Number (Fin 0)))) = i + 1"
    using Suc.prems by (simp add: arr_set_def)
  have "zero_loop (Fin q) i a = zero_loop (Fin q) (i + 1) (arr_set a (int i) (Number (Fin 0)))"
    using lt by (subst zero_loop.simps) simp
  also have "\<dots> = Some ((arr_set a (int i) (Number (Fin 0)))
      \<lparr>elems := elems (arr_set a (int i) (Number (Fin 0)))
                  @ replicate (nat \<lceil>q\<rceil> - (i + 1)) (Number (Fin 0))\<rparr>)"
    by (rule Suc.hyps(1)[OF n len])
  also have "\<dots> = Some (a\<lparr>elems := elems a @ replicate (nat \<lceil>q\<rceil> - i) (Number (Fin 0))\<rparr>)"
  proof -
    have "nat \<lceil>q\<rceil> - i = Suc (nat \<lceil>q\<rceil> - (i + 1))" using Suc.hyps(2) by simp
    then show ?thesis using Suc.prems by (simp add: arr_set_def)
  qed
  finally show ?case .
qed







subsection \<open>\<open>Math.min\<close> and \<open>indexOf\<close>\<close>

lemma js_le_refl: "a \<noteq> NaN \<Longrightarrow> js_le a a"
  by (cases a) simp_all

lemma js_le_total: "a \<noteq> NaN \<Longrightarrow> b \<noteq> NaN \<Longrightarrow> js_le a b \<or> js_le b a"
  by (cases a; cases b) auto

lemma js_le_trans: "js_le a b \<Longrightarrow> js_le b c \<Longrightarrow> js_le a c"
  by (cases a; cases b; cases c) auto

lemma js_le_NaN: "\<not> js_le a NaN" "\<not> js_le NaN a"
  by (cases a; simp)+

lemma js_lt_iff: "a \<noteq> NaN \<Longrightarrow> b \<noteq> NaN \<Longrightarrow> js_lt a b = (js_le a b \<and> a \<noteq> b)"
  by (cases a; cases b) auto

lemma min2_numeric: "a \<noteq> NaN \<Longrightarrow> b \<noteq> NaN \<Longrightarrow> min2 a b = (if js_le a b then a else b)"
  by (cases a; cases b) simp_all

lemma min2_NaN: "min2 a NaN = NaN" "min2 NaN b = NaN"
  by (cases a; simp)+

lemma js_le_PInf: "a \<noteq> NaN \<Longrightarrow> js_le a PInf"
  by (cases a) simp_all

lemma Math_min_not_NaN: "NaN \<notin> set vs \<Longrightarrow> Math_min vs \<noteq> NaN"
  by (induction vs) (auto simp: min2_numeric split: if_splits)

lemma Math_min_le: "NaN \<notin> set vs \<Longrightarrow> v \<in> set vs \<Longrightarrow> js_le (Math_min vs) v"
proof (induction vs)
  case Nil
  then show ?case by simp
next
  case (Cons a vs)
  have a: "a \<noteq> NaN" and m: "Math_min vs \<noteq> NaN"
    using Cons.prems(1) Math_min_not_NaN[of vs] by auto
  show ?case
  proof (cases "v = a")
    case True
    then show ?thesis using a m js_le_total[of a "Math_min vs"] by (auto simp: min2_numeric js_le_refl)
  next
    case False
    then have "js_le (Math_min vs) v" using Cons by auto
    then show ?thesis using a m js_le_total[of a "Math_min vs"]
      by (auto simp: min2_numeric intro: js_le_trans)
  qed
qed

lemma Math_min_in_set: "NaN \<notin> set vs \<Longrightarrow> vs \<noteq> [] \<Longrightarrow> Math_min vs \<in> set vs"
proof (induction vs)
  case Nil
  then show ?case by simp
next
  case (Cons a vs)
  have a: "a \<noteq> NaN" and m: "Math_min vs \<noteq> NaN"
    using Cons.prems(1) Math_min_not_NaN[of vs] by auto
  show ?case
  proof (cases "vs = []")
    case True
    then show ?thesis using a by (simp add: min2_numeric js_le_PInf)
  next
    case False
    then show ?thesis using Cons a m by (auto simp: min2_numeric)
  qed
qed

lemma Math_min_NaN: "NaN \<in> set vs \<Longrightarrow> Math_min vs = NaN"
  by (induction vs) (auto simp: min2_NaN)

lemma indexOf_from_first:
  "i < length es \<Longrightarrow> strict_eq (es ! i) v \<Longrightarrow> \<forall>j<i. \<not> strict_eq (es ! j) v \<Longrightarrow>
   indexOf_from k es v = k + int i"
proof (induction es arbitrary: k i)
  case Nil
  then show ?case by simp
next
  case (Cons e es)
  show ?case
  proof (cases i)
    case 0
    then show ?thesis using Cons.prems by simp
  next
    case (Suc n)
    have "\<not> strict_eq e v" using Cons.prems(3) Suc by auto
    moreover have "indexOf_from (k + 1) es v = (k + 1) + int n"
      using Cons.prems Suc by (intro Cons.IH) auto
    ultimately show ?thesis using Suc by simp
  qed
qed

lemma indexOf_from_none:
  "\<forall>e\<in>set es. \<not> strict_eq e v \<Longrightarrow> indexOf_from k es v = -1"
  by (induction es arbitrary: k) auto

lemma indexOf_from_range:
  "indexOf_from k es v = -1 \<or> (k \<le> indexOf_from k es v \<and> indexOf_from k es v < k + int (length es))"
proof (induction es arbitrary: k)
  case Nil
  then show ?case by simp
next
  case (Cons e es)
  show ?case using Cons[of "k + 1"] by auto
qed

lemma fitMinIndex_range:
  "fitMinIndex a = -1 \<or> (0 \<le> fitMinIndex a \<and> fitMinIndex a < int (length (elems a)))"
  using indexOf_from_range[of 0 "elems a"] by (simp add: fitMinIndex_def indexOf_def)

lemma strict_eq_NaN: "\<not> strict_eq e (Number NaN)"
  by (cases e) (auto simp: num_strict_eq_def)


lemma ToNumber_NaN_iff: "(ToNumber e = NaN) = (\<not> numeric e)"
  by (cases e) auto

lemma fitMinIndex_not_numeric:
  "\<exists>e\<in>set (elems a). \<not> numeric e \<Longrightarrow> fitMinIndex a = -1"
proof -
  assume "\<exists>e\<in>set (elems a). \<not> numeric e"
  then obtain e where e: "e \<in> set (elems a)" "\<not> numeric e" by blast
  then have "ToNumber e = NaN" by (simp add: ToNumber_NaN_iff)
  then have "NaN \<in> set (map ToNumber (elems a))" using e(1) by force
  then have "Math_min (map ToNumber (elems a)) = NaN" by (rule Math_min_NaN)
  then show ?thesis
    by (simp add: fitMinIndex_def indexOf_def indexOf_from_none strict_eq_NaN)
qed

lemma numeric_strict_eq: "numeric e \<Longrightarrow> strict_eq e (Number m) = (ToNumber e = m)"
  by (cases e) (auto simp: num_strict_eq_def)

lemma fitMinIndex_numeric:
  assumes ne: "elems a \<noteq> []" and num: "\<forall>e\<in>set (elems a). numeric e"
  shows "\<exists>i<length (elems a). fitMinIndex a = int i
           \<and> (\<forall>j<length (elems a). js_le (ToNumber (elems a ! i)) (ToNumber (elems a ! j)))
           \<and> (\<forall>j<i. js_lt (ToNumber (elems a ! i)) (ToNumber (elems a ! j)))"
proof -
  define vs where "vs = map ToNumber (elems a)"
  define m where "m = Math_min vs"
  have nn: "NaN \<notin> set vs"
  proof
    assume "NaN \<in> set vs"
    then obtain e where "e \<in> set (elems a)" "ToNumber e = NaN" by (auto simp: vs_def)
    then show False using num by (auto simp: ToNumber_NaN_iff)
  qed
  have vne: "vs \<noteq> []" using ne by (simp add: vs_def)
  have "m \<in> set vs" unfolding m_def using nn vne by (rule Math_min_in_set)
  then obtain i0 where i0: "i0 < length (elems a)" "ToNumber (elems a ! i0) = m"
    by (auto simp: vs_def in_set_conv_nth)
  define i where "i = (LEAST i. i < length (elems a) \<and> ToNumber (elems a ! i) = m)"
  have i: "i < length (elems a) \<and> ToNumber (elems a ! i) = m"
    unfolding i_def using i0 by (intro LeastI[of "\<lambda>i. i < length (elems a) \<and> ToNumber (elems a ! i) = m" i0]) simp
  have least: "\<not> (j < length (elems a) \<and> ToNumber (elems a ! j) = m)" if "j < i" for j
    using that unfolding i_def by (rule not_less_Least)
  have numj: "numeric (elems a ! j)" if "j < length (elems a)" for j
    using num that by simp
  have "indexOf_from 0 (elems a) (Number m) = 0 + int i"
  proof (rule indexOf_from_first)
    show "i < length (elems a)" using i by simp
    show "strict_eq (elems a ! i) (Number m)" using i numj by (simp add: numeric_strict_eq)
    show "\<forall>j<i. \<not> strict_eq (elems a ! j) (Number m)"
      using least i numj by (auto simp: numeric_strict_eq)
  qed
  then have fit: "fitMinIndex a = int i"
    by (simp add: fitMinIndex_def indexOf_def m_def vs_def)
  have le: "js_le (ToNumber (elems a ! i)) (ToNumber (elems a ! j))" if "j < length (elems a)" for j
  proof -
    have "ToNumber (elems a ! j) \<in> set vs" using that by (auto simp: vs_def)
    then show ?thesis using Math_min_le[OF nn] i by (simp add: m_def)
  qed
  have lt: "js_lt (ToNumber (elems a ! i)) (ToNumber (elems a ! j))" if "j < i" for j
  proof -
    have j: "j < length (elems a)" using that i by simp
    have "ToNumber (elems a ! j) \<noteq> m" using least[OF that] j by simp
    moreover have "ToNumber (elems a ! j) \<noteq> NaN"
      using numj[OF j] by (simp add: ToNumber_NaN_iff)
    moreover have "m \<noteq> NaN"
      using Math_min_not_NaN[OF nn] by (simp add: m_def)
    ultimately show ?thesis using le[OF j] i by (auto simp: js_lt_iff)
  qed
  show ?thesis using i fit le lt by blast
qed

lemma js_lt_not_le: "js_lt a b \<Longrightarrow> \<not> js_le b a"
  by (cases a; cases b) auto

lemma attains_min_numeric:
  assumes "attains_min a i"
  shows "elems a \<noteq> []" and "\<forall>e\<in>set (elems a). numeric e"
proof -
  show "elems a \<noteq> []" using assms by (auto simp: attains_min_def)
  show "\<forall>e\<in>set (elems a). numeric e"
  proof
    fix e assume "e \<in> set (elems a)"
    then have "js_le (ToNumber (elems a ! i)) (ToNumber e)"
      using assms by (simp add: attains_min_def list_all_iff)
    then have "ToNumber e \<noteq> NaN" using js_le_NaN(1) by metis
    then show "numeric e" by (simp add: ToNumber_NaN_iff)
  qed
qed

lemma fitMinIndex_first_min:
  assumes "elems a \<noteq> []" "\<forall>e\<in>set (elems a). numeric e"
  shows "\<exists>i. attains_min a i \<and> (\<forall>j<i. \<not> attains_min a j) \<and> fitMinIndex a = int i"
proof -
  from fitMinIndex_numeric[OF assms] obtain i where i: "i < length (elems a)"
    and fit: "fitMinIndex a = int i"
    and le: "\<forall>j<length (elems a). js_le (ToNumber (elems a ! i)) (ToNumber (elems a ! j))"
    and lt: "\<forall>j<i. js_lt (ToNumber (elems a ! i)) (ToNumber (elems a ! j))"
    by blast
  have "attains_min a i" using i le by (simp add: attains_min_def list_all_length)
  moreover have "\<not> attains_min a j" if "j < i" for j
  proof
    assume "attains_min a j"
    then have "js_le (ToNumber (elems a ! j)) (ToNumber (elems a ! i))"
      using i by (simp add: attains_min_def list_all_length)
    then show False using lt that js_lt_not_le by blast
  qed
  ultimately show ?thesis using fit by blast
qed

lemma fitMinIndex_attains:
  assumes "attains_min a i" "\<forall>j<i. \<not> attains_min a j"
  shows "fitMinIndex a = int i"
proof -
  from fitMinIndex_first_min[OF attains_min_numeric[OF assms(1)]] obtain i0 where
    i0: "attains_min a i0" "\<forall>j<i0. \<not> attains_min a j" "fitMinIndex a = int i0"
    by blast
  have "\<not> i0 < i" using assms(2) i0(1) by blast
  moreover have "\<not> i < i0" using assms(1) i0(2) by blast
  ultimately show ?thesis using i0(3) by simp
qed

subsection \<open>What a pass of \<open>_pack\<close> leaves alone\<close>

lemma packChild_frame:
  "gutterX (snd (packChild c s)) = gutterX s"
  "gutterY (snd (packChild c s)) = gutterY s"
  "trace (snd (packChild c s)) = trace s"
  "children (snd (packChild c s)) = children s"
  "colWidth (snd (packChild c s)) = colWidth s"
  "containerWidth (snd (packChild c s)) = containerWidth s"
  "colCount (snd (packChild c s)) = colCount s"
  "child_height (fst (packChild c s)) = child_height c"
  "child_el (fst (packChild c s)) = child_el c"
  "child_index (fst (packChild c s)) = child_index c"
  by (simp_all add: packChild_def Let_def)

lemma forEach_packChild_Cons:
  "forEach_packChild (c # cs) s =
     (fst (packChild c s) # fst (forEach_packChild cs (snd (packChild c s))),
      snd (forEach_packChild cs (snd (packChild c s))))"
  by (simp add: split_def Let_def)

lemma pack_unfold:
  "pack s = (snd (forEach_packChild (children s) (s\<lparr>trace := trace s @ [PackCall]\<rparr>)))
              \<lparr>children := fst (forEach_packChild (children s) (s\<lparr>trace := trace s @ [PackCall]\<rparr>))\<rparr>"
  by (simp add: pack_def split_def Let_def)

lemma forEach_packChild_frame:
  "gutterX (snd (forEach_packChild cs s)) = gutterX s"
  "gutterY (snd (forEach_packChild cs s)) = gutterY s"
  "trace (snd (forEach_packChild cs s)) = trace s"
  "children (snd (forEach_packChild cs s)) = children s"
  "colWidth (snd (forEach_packChild cs s)) = colWidth s"
  "containerWidth (snd (forEach_packChild cs s)) = containerWidth s"
  "colCount (snd (forEach_packChild cs s)) = colCount s"
  "length (fst (forEach_packChild cs s)) = length cs"
  "map child_height (fst (forEach_packChild cs s)) = map child_height cs"
  "map child_el (fst (forEach_packChild cs s)) = map child_el cs"
  "map child_index (fst (forEach_packChild cs s)) = map child_index cs"
  by (induction cs arbitrary: s;
      simp add: forEach_packChild_Cons packChild_frame del: forEach_packChild.simps(2))+

lemma packChild_colHeights_length:
  "length (elems (colHeights (snd (packChild c s)))) = length (elems (colHeights s))"
  using fitMinIndex_range[of "colHeights s"]
  by (auto simp: packChild_def Let_def arr_set_def)

lemma forEach_packChild_colHeights_length:
  "length (elems (colHeights (snd (forEach_packChild cs s)))) = length (elems (colHeights s))"
  by (induction cs arbitrary: s)
     (simp_all add: forEach_packChild_Cons packChild_colHeights_length
        del: forEach_packChild.simps(2))

lemma pack_frame:
  "gutterX (pack s) = gutterX s"
  "gutterY (pack s) = gutterY s"
  "trace (pack s) = trace s @ [PackCall]"
  "colWidth (pack s) = colWidth s"
  "containerWidth (pack s) = containerWidth s"
  "colCount (pack s) = colCount s"
  "length (children (pack s)) = length (children s)"
  "map child_height (children (pack s)) = map child_height (children s)"
  "map child_el (children (pack s)) = map child_el (children s)"
  "map child_index (children (pack s)) = map child_index (children s)"
  "length (elems (colHeights (pack s))) = length (elems (colHeights s))"
  by (simp_all add: pack_unfold forEach_packChild_frame forEach_packChild_colHeights_length)

lemma update_frame:
  "gutterX (update s) = gutterX s"
  "gutterY (update s) = gutterY s"
  "colWidth (update s) = colWidth s"
  "containerWidth (update s) = containerWidth s"
  "colCount (update s) = colCount s"
  "children (update s) = children (pack s)"
  "colHeights (update s) = colHeights (pack s)"
  "trace (update s) = trace s @ [PackCall, RenderCall] @ map positionChild (children (pack s))"
  by (simp_all add: update_def render_def pack_frame)

text \<open>
  The coordinates and the column heights a pass computes depend on the measurements of
  the children, the gutters and the column heights at its start, and on nothing else
  of the instance.
\<close>

lemma packChild_cong:
  assumes "colHeights s1 = colHeights s2" "gutterX s1 = gutterX s2" "gutterY s1 = gutterY s2"
    and "dom_width (child_el c1) = dom_width (child_el c2)" "child_height c1 = child_height c2"
  shows "child_x (fst (packChild c1 s1)) = child_x (fst (packChild c2 s2))"
    and "child_y (fst (packChild c1 s1)) = child_y (fst (packChild c2 s2))"
    and "colHeights (snd (packChild c1 s1)) = colHeights (snd (packChild c2 s2))"
  using assms by (simp_all add: packChild_def Let_def)

lemma forEach_packChild_cong:
  assumes "colHeights s1 = colHeights s2" "gutterX s1 = gutterX s2" "gutterY s1 = gutterY s2"
    and "map (\<lambda>c. (dom_width (child_el c), child_height c)) cs1
         = map (\<lambda>c. (dom_width (child_el c), child_height c)) cs2"
  shows "map (\<lambda>c. (child_x c, child_y c)) (fst (forEach_packChild cs1 s1))
         = map (\<lambda>c. (child_x c, child_y c)) (fst (forEach_packChild cs2 s2))
       \<and> colHeights (snd (forEach_packChild cs1 s1)) = colHeights (snd (forEach_packChild cs2 s2))"
  using assms
proof (induction cs1 arbitrary: cs2 s1 s2)
  case Nil
  then show ?case by simp
next
  case (Cons c1 cs1)
  from Cons.prems(4) obtain c2 cs2' where cs2: "cs2 = c2 # cs2'"
    and c: "dom_width (child_el c1) = dom_width (child_el c2)" "child_height c1 = child_height c2"
    and rest: "map (\<lambda>c. (dom_width (child_el c), child_height c)) cs1
         = map (\<lambda>c. (dom_width (child_el c), child_height c)) cs2'"
    by (cases cs2) auto
  note step = packChild_cong[OF Cons.prems(1-3) c]
  have "map (\<lambda>c. (child_x c, child_y c)) (fst (forEach_packChild cs1 (snd (packChild c1 s1))))
         = map (\<lambda>c. (child_x c, child_y c)) (fst (forEach_packChild cs2' (snd (packChild c2 s2))))
       \<and> colHeights (snd (forEach_packChild cs1 (snd (packChild c1 s1))))
         = colHeights (snd (forEach_packChild cs2' (snd (packChild c2 s2))))"
    by (rule Cons.IH) (simp_all add: step packChild_frame Cons.prems rest)
  then show ?case
    by (simp add: cs2 forEach_packChild_Cons step del: forEach_packChild.simps(2))
qed




subsection \<open>A pass on finite column heights\<close>














subsection \<open>Initialisation\<close>











subsection \<open>The width stored after an event\<close>

lemma resetColHeights_frame:
  assumes "resetColHeights s = Some s'"
  shows "containerWidth s' = containerWidth s" "colWidth s' = colWidth s"
    "gutterX s' = gutterX s" "gutterY s' = gutterY s" "children s' = children s"
    "trace s' = trace s"
  using assms by (auto simp: resetColHeights_def split: option.splits)

lemma strict_eq_Number: "strict_eq (Number w) v \<Longrightarrow> v = Number w"
  by (cases v) (auto simp: num_strict_eq_def)

text \<open>Whatever happens on an event, the width stored afterwards is the width measured.\<close>

lemma updateContainerWidth_stores:
  assumes "updateContainerWidth w s = Some s'"
  shows "containerWidth s' = Number w"
proof (cases "strict_eq (Number w) (containerWidth s)")
  case True
  then show ?thesis using assms strict_eq_Number[OF True]
    by (simp add: updateContainerWidth_def)
next
  case False
  let ?t = "s\<lparr>containerWidth := Number w\<rparr>"
  from False assms have c: "containerWidthChanged ?t = Some s'"
    by (simp add: updateContainerWidth_def)
  show ?thesis
  proof (cases "strict_eq (Number (getColumnCount ?t)) (colCount ?t)")
    case True
    then show ?thesis using c by (auto simp: containerWidthChanged_def)
  next
    case False
    then obtain r where r: "resetColHeights (?t\<lparr>colCount := Number (getColumnCount ?t)\<rparr>) = Some r"
      and s': "s' = update r"
      using c by (auto simp: containerWidthChanged_def columnCountChanged_def Let_def)
    show ?thesis using resetColHeights_frame(1)[OF r] by (simp add: s' update_frame)
  qed
qed

subsection \<open>Evaluating the scenarios\<close>


lemma init_page: "init (Fin 20, Fin 10) page = Some page_laid_out"
  by (simp add: init_def updateContainerWidth_def containerWidthChanged_def
      columnCountChanged_def resetColHeights_def zero_loop_Fin update_def render_def pack_def
      packChild_def fitMinIndex_def indexOf_def arr_get_def arr_set_def empty_array_def
      getColumnCount_def parseChildren_def setupGlobals_def page_def setColumnWidth_def
      item_def addNewChild_def num_strict_eq_def numeral_3_eq_3 page_laid_out_def placed_def
      array_of_def positionChild_def)

lemma fresh_page_fields:
  "children fresh_page =
     [\<lparr>child_el = item 100 50, child_index = 0, child_height = Fin 50, child_x = Fin 0, child_y = Number (Fin 0)\<rparr>,
      \<lparr>child_el = item 100 80, child_index = 1, child_height = Fin 80, child_x = Fin 0, child_y = Number (Fin 0)\<rparr>,
      \<lparr>child_el = item 100 30, child_index = 2, child_height = Fin 30, child_x = Fin 0, child_y = Number (Fin 0)\<rparr>,
      \<lparr>child_el = item 100 60, child_index = 3, child_height = Fin 60, child_x = Fin 0, child_y = Number (Fin 0)\<rparr>,
      \<lparr>child_el = item 100 40, child_index = 4, child_height = Fin 40, child_x = Fin 0, child_y = Number (Fin 0)\<rparr>]"
  "gutterX fresh_page = Fin 20" "gutterY fresh_page = Fin 10"
  by (simp_all add: fresh_page_def parseChildren_def setupGlobals_def setColumnWidth_def
      addNewChild_def page_def item_def)

section \<open>Properties\<close>

subsection \<open>The end-to-end scenario\<close>

text \<open>
  Claim C1.  Five items of width 100 and heights 50, 80, 30, 60, 40, the gutters
  \<open>(20, 10)\<close> and a container of width 340: the column count computed during
  \<open>init\<close> is 3, and \<open>init\<close> leaves the items, in their order, at
  \<open>(0, 0)\<close>, \<open>(120, 0)\<close>, \<open>(240, 0)\<close>, \<open>(240, 40)\<close> and \<open>(0, 60)\<close>.
\<close>

theorem end_to_end_scenario:
  "getColumnCount ((parseChildren page (setupGlobals (Fin 20, Fin 10) page))
                     \<lparr>containerWidth := Number (Fin 340)\<rparr>) = Fin 3
   \<and> (\<exists>s. init (Fin 20, Fin 10) page = Some s
         \<and> colCount s = Number (Fin 3)
         \<and> map child_height (children s) = [Fin 50, Fin 80, Fin 30, Fin 60, Fin 40]
         \<and> coords s = [(Fin 0, Number (Fin 0)), (Fin 120, Number (Fin 0)),
                       (Fin 240, Number (Fin 0)), (Fin 240, Number (Fin 40)),
                       (Fin 0, Number (Fin 60))])"
proof
  show "getColumnCount ((parseChildren page (setupGlobals (Fin 20, Fin 10) page))
                     \<lparr>containerWidth := Number (Fin 340)\<rparr>) = Fin 3"
    by (simp add: getColumnCount_def parseChildren_def setupGlobals_def page_def
        setColumnWidth_def item_def addNewChild_def)
  show "\<exists>s. init (Fin 20, Fin 10) page = Some s
         \<and> colCount s = Number (Fin 3)
         \<and> map child_height (children s) = [Fin 50, Fin 80, Fin 30, Fin 60, Fin 40]
         \<and> coords s = [(Fin 0, Number (Fin 0)), (Fin 120, Number (Fin 0)),
                       (Fin 240, Number (Fin 0)), (Fin 240, Number (Fin 40)),
                       (Fin 0, Number (Fin 60))]"
    by (simp add: init_page) (simp add: page_laid_out_def placed_def coords_def)
qed

subsection \<open>The column count\<close>




subsection \<open>The column chosen for the next item\<close>

text \<open>
  Claim C3.  The column \<open>_fitMinIndex\<close> chooses is the lowest-indexed column among
  those attaining the minimum height: whenever column \<open>i\<close> attains the minimum of
  the array and no column before it does, \<open>_fitMinIndex\<close> returns \<open>i\<close>.  Every
  non-empty array of column heights that are numbers (none of them NaN) has such a
  column.  For \<open>[50, 30, 30]\<close> it is column 1, not column 2.
\<close>

theorem fitMinIndex_lowest_minimum:
  "(attains_min a i \<and> (\<forall>j<i. \<not> attains_min a j) \<longrightarrow> fitMinIndex a = int i)
   \<and> (elems a \<noteq> [] \<and> list_all numeric (elems a)
      \<longrightarrow> (\<exists>i. attains_min a i \<and> (\<forall>j<i. \<not> attains_min a j)))
   \<and> fitMinIndex (array_of [50, 30, 30]) = 1"
proof (intro conjI impI)
  assume "attains_min a i \<and> (\<forall>j<i. \<not> attains_min a j)"
  then show "fitMinIndex a = int i" using fitMinIndex_attains by blast
next
  assume "elems a \<noteq> [] \<and> list_all numeric (elems a)"
  then have "elems a \<noteq> []" "\<forall>e\<in>set (elems a). numeric e" by (simp_all add: list_all_iff)
  from fitMinIndex_first_min[OF this] show "\<exists>i. attains_min a i \<and> (\<forall>j<i. \<not> attains_min a j)"
    by blast
next
  show "fitMinIndex (array_of [50, 30, 30]) = 1"
    by (simp add: fitMinIndex_def indexOf_def array_of_def num_strict_eq_def)
qed

text \<open>
  In \<open>[50, 30, 40]\<close> column 1 attains the minimum and column 0 does not.
\<close>

theorem fitMinIndex_lowest_minimum_witness:
  "attains_min (array_of [50, 30, 40]) 1 \<and> \<not> attains_min (array_of [50, 30, 40]) 0
   \<and> fitMinIndex (array_of [50, 30, 40]) = 1
   \<and> elems (array_of [50, 30, 40]) \<noteq> [] \<and> list_all numeric (elems (array_of [50, 30, 40]))
   \<and> (\<exists>i. attains_min (array_of [50, 30, 40]) i \<and> (\<forall>j<i. \<not> attains_min (array_of [50, 30, 40]) j))"
proof -
  have h1: "attains_min (array_of [50, 30, 40]) 1 \<and> \<not> attains_min (array_of [50, 30, 40]) 0"
    by (simp add: attains_min_def array_of_def)
  then have h1': "attains_min (array_of [50, 30, 40]) 1
      \<and> (\<forall>j<1. \<not> attains_min (array_of [50, 30, 40]) j)"
    by simp
  have h2: "elems (array_of [50, 30, 40]) \<noteq> [] \<and> list_all numeric (elems (array_of [50, 30, 40]))"
    by (simp add: array_of_def)
  from fitMinIndex_lowest_minimum[of "array_of [50, 30, 40]" 1] h1 h1' h2
  show ?thesis by simp
qed

subsection \<open>Determinism of a pass\<close>

text \<open>
  Claim C4.  Two passes of \<open>_pack\<close> over the same items in the same order (the same
  widths and heights), with the same gutters, each started on \<open>n\<close> columns of height
  zero, give every item the same coordinates and leave the same column heights, whatever
  else the two instances hold (earlier coordinates, cached widths, the trace).
\<close>

theorem pack_deterministic:
  assumes "map measurements (children s1) = map measurements (children s2)"
    and "colHeights s1 = zeroed n" "colHeights s2 = zeroed n"
    and "gutterX s1 = gutterX s2" "gutterY s1 = gutterY s2"
  shows "coords (pack s1) = coords (pack s2) \<and> colHeights (pack s1) = colHeights (pack s2)"
proof -
  let ?t1 = "s1\<lparr>trace := trace s1 @ [PackCall]\<rparr>" and ?t2 = "s2\<lparr>trace := trace s2 @ [PackCall]\<rparr>"
  have m: "map (\<lambda>c. (dom_width (child_el c), child_height c)) (children s1)
         = map (\<lambda>c. (dom_width (child_el c), child_height c)) (children s2)"
    using assms(1) by (simp add: measurements_def[abs_def])
  have "colHeights ?t1 = colHeights ?t2" "gutterX ?t1 = gutterX ?t2" "gutterY ?t1 = gutterY ?t2"
    using assms by simp_all
  from forEach_packChild_cong[OF this m] show ?thesis
    by (simp add: coords_def pack_unfold)
qed

text \<open>
  The scenario, once from the laid-out instance and once from the fresh one: the
  coordinates differ before the pass and agree after it.
\<close>

theorem pack_deterministic_witness:
  "map measurements (children (page_laid_out\<lparr>colHeights := zeroed 3\<rparr>))
     = map measurements (children (fresh_page\<lparr>colHeights := zeroed 3\<rparr>))
   \<and> coords (page_laid_out\<lparr>colHeights := zeroed 3\<rparr>) \<noteq> coords (fresh_page\<lparr>colHeights := zeroed 3\<rparr>)
   \<and> coords (pack (page_laid_out\<lparr>colHeights := zeroed 3\<rparr>))
       = coords (pack (fresh_page\<lparr>colHeights := zeroed 3\<rparr>))
   \<and> colHeights (pack (page_laid_out\<lparr>colHeights := zeroed 3\<rparr>))
       = colHeights (pack (fresh_page\<lparr>colHeights := zeroed 3\<rparr>))"
proof -
  have m: "map measurements (children (page_laid_out\<lparr>colHeights := zeroed 3\<rparr>))
     = map measurements (children (fresh_page\<lparr>colHeights := zeroed 3\<rparr>))"
    by (simp add: fresh_page_fields page_laid_out_def placed_def measurements_def)
  have d: "coords (page_laid_out\<lparr>colHeights := zeroed 3\<rparr>) \<noteq> coords (fresh_page\<lparr>colHeights := zeroed 3\<rparr>)"
    by (simp add: fresh_page_fields page_laid_out_def placed_def coords_def)
  have g: "gutterX (page_laid_out\<lparr>colHeights := zeroed 3\<rparr>) = gutterX (fresh_page\<lparr>colHeights := zeroed 3\<rparr>)"
    "gutterY (page_laid_out\<lparr>colHeights := zeroed 3\<rparr>) = gutterY (fresh_page\<lparr>colHeights := zeroed 3\<rparr>)"
    by (simp_all add: fresh_page_fields page_laid_out_def)
  from pack_deterministic[OF m _ _ g, of 3] m d show ?thesis by simp
qed

subsection \<open>Resize events\<close>

text \<open>
  Claim C5.  When the width measured on a resize event is the number already stored in
  \<open>containerWidth\<close>, \<open>_updateContainerWidth\<close> returns with the instance as it was:
  the stored width, the column count, the column heights and the coordinates of every
  child are unchanged, and the trace has gained no pass of \<open>_pack\<close> or \<open>render\<close>
  and no write to the page.  That is the case of every instance \<open>init\<close> or an earlier
  event has left, when the same width is measured again.
\<close>

theorem resize_same_width_noop:
  "(containerWidth s = Number w \<and> w \<noteq> NaN \<longrightarrow> updateContainerWidth w s = Some s)
   \<and> (updateContainerWidth w s0 = Some s \<and> w \<noteq> NaN \<longrightarrow> updateContainerWidth w s = Some s)"
proof (intro conjI impI)
  assume "containerWidth s = Number w \<and> w \<noteq> NaN"
  then show "updateContainerWidth w s = Some s"
    by (simp add: updateContainerWidth_def num_strict_eq_def)
next
  assume h: "updateContainerWidth w s0 = Some s \<and> w \<noteq> NaN"
  then have "containerWidth s = Number w" using updateContainerWidth_stores by blast
  then show "updateContainerWidth w s = Some s"
    using h by (simp add: updateContainerWidth_def num_strict_eq_def)
qed

text \<open>
  The scenario as \<open>init\<close> leaves it, resized to its own width 340.
\<close>

theorem resize_same_width_noop_witness:
  "containerWidth page_laid_out = Number (Fin 340) \<and> Fin 340 \<noteq> NaN
   \<and> init (Fin 20, Fin 10) page = Some page_laid_out
   \<and> updateContainerWidth (Fin 340) page_laid_out = Some page_laid_out"
proof -
  have h: "containerWidth page_laid_out = Number (Fin 340) \<and> Fin 340 \<noteq> NaN"
    by (simp add: page_laid_out_def)
  with resize_same_width_noop[of page_laid_out "Fin 340"] init_page show ?thesis by blast
qed

text \<open>
  Claim C6.  When the width measured on a resize event differs from the stored one and
  the column count recomputed from it is strictly equal to the stored column count, the
  new width is stored and nothing else changes: the column heights are not reset, the
  coordinates of every child stay, and the trace gains no pass and no write to the page.
\<close>

theorem resize_same_column_count:
  "\<not> strict_eq (Number w) (containerWidth s) \<Longrightarrow>
   strict_eq (Number (getColumnCount (s\<lparr>containerWidth := Number w\<rparr>))) (colCount s) \<Longrightarrow>
   updateContainerWidth w s = Some (s\<lparr>containerWidth := Number w\<rparr>)"
  by (simp add: updateContainerWidth_def containerWidthChanged_def)

text \<open>
  The laid-out scenario, resized from 340 to 400: \<open>floor (420 / 120)\<close> is still 3.
\<close>

theorem resize_same_column_count_witness:
  "\<not> strict_eq (Number (Fin 400)) (containerWidth page_laid_out)
   \<and> strict_eq (Number (getColumnCount (page_laid_out\<lparr>containerWidth := Number (Fin 400)\<rparr>)))
       (colCount page_laid_out)
   \<and> updateContainerWidth (Fin 400) page_laid_out
       = Some (page_laid_out\<lparr>containerWidth := Number (Fin 400)\<rparr>)"
  using resize_same_column_count[of "Fin 400" page_laid_out]
  by (simp add: page_laid_out_def getColumnCount_def num_strict_eq_def floor_eq_iff)

subsection \<open>A divisor that is not positive\<close>




subsection \<open>Measurements that are not valid heights\<close>




subsection \<open>The column index inside a pass\<close>



subsection \<open>Repeated updates\<close>




end
